theory Spec2Isabelle
  imports Main
begin

section \<open>JavaScript values the plugin handles\<close>

text \<open>
  The http plugin (\<^verbatim>\<open>src/census/plugins/http.ts\<close>) reads optional string properties
  (\<^verbatim>\<open>options.host\<close>, \<^verbatim>\<open>parsedUrl.pathname\<close>, ...), uses them in \<^verbatim>\<open>x || 'default'\<close>
  and prints them in template literals. A property is therefore \<^verbatim>\<open>undefined\<close>,
  \<^verbatim>\<open>null\<close> or a string; all three behave differently in a template literal.
\<close>

datatype jstring = Undefined | Null | Str string

text \<open>Truthiness of \<^verbatim>\<open>string | null | undefined\<close>: only a non-empty string is truthy.\<close>

fun truthy :: "jstring \<Rightarrow> bool" where
  "truthy (Str s) = (s \<noteq> [])"
| "truthy Null = False"
| "truthy Undefined = False"

text \<open>\<^verbatim>\<open>`${x}`\<close> and \<^verbatim>\<open>String(x)\<close>.\<close>

fun to_string :: "jstring \<Rightarrow> string" where
  "to_string (Str s) = s"
| "to_string Null = ''null''"
| "to_string Undefined = ''undefined''"

text \<open>\<^verbatim>\<open>x || d\<close> for a string default \<^verbatim>\<open>d\<close>.\<close>

fun or_else :: "jstring \<Rightarrow> string \<Rightarrow> string" where
  "or_else (Str s) d = (if s \<noteq> [] then s else d)"
| "or_else Null d = d"
| "or_else Undefined d = d"

text \<open>Errors the plugin raises or lets through.\<close>

datatype error = TypeError string | Thrown string

section \<open>Status classifier\<close>

text \<open>The enumeration \<^verbatim>\<open>TraceStatusCodes\<close> with its numeric values.\<close>

datatype TraceStatusCodes =
    UNKNOWN | OK | INVALID_ARGUMENT | DEADLINE_EXCEEDED | NOT_FOUND
  | PERMISSION_DENIED | UNAUTHENTICATED | RESOURCE_EXHAUSTED | UNIMPLEMENTED | UNAVAILABLE

fun status_value :: "TraceStatusCodes \<Rightarrow> nat" where
  "status_value UNKNOWN = 2"
| "status_value OK = 0"
| "status_value INVALID_ARGUMENT = 3"
| "status_value DEADLINE_EXCEEDED = 4"
| "status_value NOT_FOUND = 5"
| "status_value PERMISSION_DENIED = 7"
| "status_value UNAUTHENTICATED = 16"
| "status_value RESOURCE_EXHAUSTED = 8"
| "status_value UNIMPLEMENTED = 12"
| "status_value UNAVAILABLE = 14"

text \<open>
  \<^verbatim>\<open>static convertTraceStatus (statusCode: number): number\<close>, on integer status codes,
  with the branches and the \<^verbatim>\<open>switch\<close> cases in the order of the source.
\<close>

definition convertTraceStatus :: "int \<Rightarrow> TraceStatusCodes" where
  "convertTraceStatus statusCode =
     (if statusCode < 200 \<or> statusCode > 504 then UNKNOWN
      else if statusCode \<ge> 200 \<and> statusCode < 400 then OK
      else if statusCode = 400 then INVALID_ARGUMENT
      else if statusCode = 504 then DEADLINE_EXCEEDED
      else if statusCode = 404 then NOT_FOUND
      else if statusCode = 403 then PERMISSION_DENIED
      else if statusCode = 401 then UNAUTHENTICATED
      else if statusCode = 429 then RESOURCE_EXHAUSTED
      else if statusCode = 501 then UNIMPLEMENTED
      else if statusCode = 503 then UNAVAILABLE
      else UNKNOWN)"

section \<open>Pattern matcher\<close>

text \<open>
  \<^verbatim>\<open>type IgnoreMatcher<T> = string | RegExp | ((url: string, request: T) => boolean)\<close>.
  A regular expression is represented by its \<^verbatim>\<open>test\<close> function on strings (the
  expression engine is not part of the plugin), a predicate by the boolean function it
  computes. The type is not enforced at run time: the configuration may hold any other
  value, which is what the last branch of \<^verbatim>\<open>isSatisfyPattern\<close> is for.
\<close>

datatype other_value = ONumber int | OBoolean bool | ONull | OUndefined | OObject

datatype 'r IgnoreMatcher =
    PString string
  | PRegExp "string \<Rightarrow> bool"
  | PFunction "jstring \<Rightarrow> 'r \<Rightarrow> bool"
  | POther other_value

text \<open>
  \<^verbatim>\<open>isSatisfyPattern (url, request, pattern)\<close>. The url is declared a string; the
  inbound caller passes \<^verbatim>\<open>url.parse(request.url).pathname\<close>, which is \<^verbatim>\<open>null\<close> for a URL
  without a path, so the model keeps the three possibilities. \<^verbatim>\<open>===\<close> compares without
  conversion, \<^verbatim>\<open>RegExp.test\<close> converts its argument to a string.
\<close>

fun isSatisfyPattern :: "jstring \<Rightarrow> 'r \<Rightarrow> 'r IgnoreMatcher \<Rightarrow> error + bool" where
  "isSatisfyPattern url request (PString pattern) = Inr (Str pattern = url)"
| "isSatisfyPattern url request (PRegExp test) = Inr (test (to_string url))"
| "isSatisfyPattern url request (PFunction pattern) = Inr (pattern url request)"
| "isSatisfyPattern url request (POther v) = Inl (TypeError ''Pattern is in unsupported datatype'')"

text \<open>
  The loop \<^verbatim>\<open>for (const pattern of list)\<close> of \<^verbatim>\<open>isIgnored\<close>. Besides the outcome it
  returns the patterns handed to \<^verbatim>\<open>isSatisfyPattern\<close>, in the order of the calls.
\<close>

fun isIgnored_loop ::
  "jstring \<Rightarrow> 'r \<Rightarrow> 'r IgnoreMatcher list \<Rightarrow> 'r IgnoreMatcher list \<times> (error + bool)" where
  "isIgnored_loop url request [] = ([], Inr False)"
| "isIgnored_loop url request (pattern # rest) =
     (case isSatisfyPattern url request pattern of
        Inl e \<Rightarrow> ([pattern], Inl e)
      | Inr satisfied \<Rightarrow>
          if satisfied then ([pattern], Inr True)
          else (case isIgnored_loop url request rest of
                  (evaluated, res) \<Rightarrow> (pattern # evaluated, res)))"

text \<open>\<^verbatim>\<open>isIgnored (url, request, list)\<close>; \<^verbatim>\<open>None\<close> is an absent (falsy) list.\<close>

definition isIgnored ::
  "jstring \<Rightarrow> 'r \<Rightarrow> 'r IgnoreMatcher list option \<Rightarrow> 'r IgnoreMatcher list \<times> (error + bool)" where
  "isIgnored url request list =
     (case list of
        None \<Rightarrow> ([], Inr False)
      | Some patterns \<Rightarrow> isIgnored_loop url request patterns)"

text \<open>
  The matching relation in the words of the specification: a string rule matches by
  equality with the url, a regular expression by its test on the url, a predicate by its
  boolean result on the url and the operation.
\<close>

fun rule_matches :: "jstring \<Rightarrow> 'r \<Rightarrow> 'r IgnoreMatcher \<Rightarrow> bool" where
  "rule_matches u r (PString s) = (u = Str s)"
| "rule_matches u r (PRegExp re) = re (to_string u)"
| "rule_matches u r (PFunction f) = f u r"
| "rule_matches u r (POther v) = False"

fun recognized :: "'r IgnoreMatcher \<Rightarrow> bool" where
  "recognized (POther v) = False"
| "recognized p = True"

section \<open>Header values, numbers as text\<close>

text \<open>
  A value of an outgoing header map (\<^verbatim>\<open>OutgoingHttpHeaders\<close>) is a number, a string or
  a list of strings; a missing key reads as \<^verbatim>\<open>undefined\<close>.
\<close>

datatype hval = HString string | HNumber int | HList "string list"

type_synonym OutgoingHttpHeaders = "string \<rightharpoonup> hval"

fun hval_truthy :: "hval option \<Rightarrow> bool" where
  "hval_truthy None = False"
| "hval_truthy (Some (HString s)) = (s \<noteq> [])"
| "hval_truthy (Some (HNumber n)) = (n \<noteq> 0)"
| "hval_truthy (Some (HList l)) = True"

text \<open>\<^verbatim>\<open>a || b\<close> on two header values.\<close>

definition hval_or :: "hval option \<Rightarrow> hval option \<Rightarrow> hval option" where
  "hval_or a b = (if hval_truthy a then a else b)"

text \<open>
  \<^verbatim>\<open>Number.prototype.toString()\<close> and \<^verbatim>\<open>`${n}`\<close> for an integer \<open>n\<close>: the decimal
  digits, with a minus sign for a negative number.
\<close>

definition digit_char :: "nat \<Rightarrow> char" where
  "digit_char d = char_of (of_char CHR ''0'' + d)"

fun decimal :: "nat \<Rightarrow> string" where
  "decimal n = (if n < 10 then [] else decimal (n div 10)) @ [digit_char (n mod 10)]"

declare decimal.simps [simp del]

definition number_toString :: "int \<Rightarrow> string" where
  "number_toString i = (if i < 0 then CHR ''-'' # decimal (nat (- i)) else decimal (nat i))"

text \<open>\<^verbatim>\<open>Array.prototype.join(sep)\<close> on a list of strings.\<close>

fun join :: "string \<Rightarrow> string list \<Rightarrow> string" where
  "join sep [] = []"
| "join sep [x] = x"
| "join sep (x # y # ys) = x @ sep @ join sep (y # ys)"

fun hval_toString :: "hval \<Rightarrow> string" where
  "hval_toString (HString s) = s"
| "hval_toString (HNumber n) = number_toString n"
| "hval_toString (HList l) = join '','' l"

section \<open>Options, urls, requests and responses\<close>

text \<open>
  The properties the plugin reads from the options of an outbound call
  (\<^verbatim>\<open>http.RequestOptions\<close>) and from the result of \<^verbatim>\<open>url.parse\<close>, which the plugin
  assigns to the same variable (\<^verbatim>\<open>options = parsedUrl\<close>). The header map is a value
  here; where the sharing of the object matters it is a reference (type parameter).
  \<^verbatim>\<open>cloned\<close> is the mark \<^verbatim>\<open>__cloned === true\<close>.
\<close>

record 'h RequestOptions =
  headers :: "'h option"
  protocol :: jstring
  host :: jstring
  hostname :: jstring
  pathname :: jstring
  path :: jstring
  http_method :: jstring
  cloned :: bool

type_synonym Url = "OutgoingHttpHeaders RequestOptions"

text \<open>The response of an outbound call (\<^verbatim>\<open>IncomingMessage\<close> on the client side).\<close>

record ClientResponse =
  response_method :: jstring
  response_statusCode :: "int option"

text \<open>
  An inbound request (\<^verbatim>\<open>IncomingMessage\<close> on the server side) with the path stack that
  the express plugin may attach under \<^verbatim>\<open>kMiddlewareStack\<close>, and the server's response.
\<close>

record ServerRequest =
  request_url :: jstring
  request_method :: jstring
  request_headers :: "string \<rightharpoonup> string"
  kMiddlewareStack :: "string list option"

record ServerResponse =
  statusCode :: int

text \<open>What \<^verbatim>\<open>error.name\<close> and \<^verbatim>\<open>error.message\<close> hold on an emitted error.\<close>

record js_error =
  error_name :: string
  error_message :: string

section \<open>Spans as the plugin uses them\<close>

text \<open>
  The span belongs to the tracing library. The plugin only calls it, so a span is
  represented by the calls made on it, oldest first.
\<close>

datatype MessageEventType = UNSPECIFIED | SENT | RECEIVED

datatype span_call =
    AddAttribute string jstring
  | SetStatus nat
  | AddMessageEvent MessageEventType string
  | End

definition ATTRIBUTE_HTTP_HOST :: string where "ATTRIBUTE_HTTP_HOST = ''http.host''"
definition ATTRIBUTE_HTTP_METHOD :: string where "ATTRIBUTE_HTTP_METHOD = ''http.method''"
definition ATTRIBUTE_HTTP_PATH :: string where "ATTRIBUTE_HTTP_PATH = ''http.path''"
definition ATTRIBUTE_HTTP_ROUTE :: string where "ATTRIBUTE_HTTP_ROUTE = ''http.route''"
definition ATTRIBUTE_HTTP_USER_AGENT :: string where "ATTRIBUTE_HTTP_USER_AGENT = ''http.user_agent''"
definition ATTRIBUTE_HTTP_STATUS_CODE :: string where "ATTRIBUTE_HTTP_STATUS_CODE = ''http.status_code''"
definition ATTRIBUTE_HTTP_ERROR_NAME :: string where "ATTRIBUTE_HTTP_ERROR_NAME = ''http.error_name''"
definition ATTRIBUTE_HTTP_ERROR_MESSAGE :: string where "ATTRIBUTE_HTTP_ERROR_MESSAGE = ''http.error_message''"

text \<open>\<^verbatim>\<open>CanonicalCode.UNKNOWN\<close> of the tracing library.\<close>

definition CanonicalCode_UNKNOWN :: nat where "CanonicalCode_UNKNOWN = 2"

text \<open>\<^verbatim>\<open>uuid.v4().split('-').join('')\<close>, given what \<^verbatim>\<open>uuid.v4()\<close> returned.\<close>

definition message_id :: "string \<Rightarrow> string" where
  "message_id uuid = filter (\<lambda>c. c \<noteq> CHR ''-'') uuid"

section \<open>Lifecycle of an outbound span\<close>

text \<open>
  The listener \<^verbatim>\<open>response.on('end', ...)\<close> registered by \<^verbatim>\<open>getMakeRequestTraceFunction\<close>.
  It reads the options variable of the closure and the response, and calls the span.
  \<^verbatim>\<open>uuid\<close> is what \<^verbatim>\<open>uuid.v4()\<close> returns in this run.
\<close>

definition response_on_end ::
  "OutgoingHttpHeaders RequestOptions \<Rightarrow> ClientResponse \<Rightarrow> string \<Rightarrow> span_call list \<Rightarrow> span_call list" where
  "response_on_end options response uuid span =
     (let method' = or_else (response_method response) ''GET'';
          userAgent = (case headers options of
                         None \<Rightarrow> None
                       | Some hs \<Rightarrow> hval_or (hs ''user-agent'') (hs ''User-Agent''))
      in span
         @ (if truthy (host options) \<or> truthy (hostname options)
            then [AddAttribute ATTRIBUTE_HTTP_HOST
                    (Str (to_string (if truthy (host options) then host options
                                     else hostname options)))]
            else [])
         @ [AddAttribute ATTRIBUTE_HTTP_METHOD (Str method'),
            AddAttribute ATTRIBUTE_HTTP_PATH (Str (to_string (path options))),
            AddAttribute ATTRIBUTE_HTTP_ROUTE (Str (to_string (path options)))]
         @ (case userAgent of
              None \<Rightarrow> []
            | Some agent \<Rightarrow>
                if hval_truthy (Some agent)
                then [AddAttribute ATTRIBUTE_HTTP_USER_AGENT (Str (hval_toString agent))]
                else [])
         @ [AddAttribute ATTRIBUTE_HTTP_STATUS_CODE
              (Str (case response_statusCode response of
                      None \<Rightarrow> ''undefined''
                    | Some c \<Rightarrow> number_toString c)),
            SetStatus (status_value (convertTraceStatus
              (case response_statusCode response of None \<Rightarrow> 0 | Some c \<Rightarrow> c))),
            AddMessageEvent SENT (message_id uuid),
            End])"

text \<open>
  The listeners \<^verbatim>\<open>response.on('error', ...)\<close> and \<^verbatim>\<open>request.on('error', ...)\<close>; their
  bodies are the same four calls.
\<close>

definition response_on_error :: "js_error \<Rightarrow> span_call list \<Rightarrow> span_call list" where
  "response_on_error error span =
     span @ [AddAttribute ATTRIBUTE_HTTP_ERROR_NAME (Str (error_name error)),
             AddAttribute ATTRIBUTE_HTTP_ERROR_MESSAGE (Str (error_message error)),
             SetStatus CanonicalCode_UNKNOWN,
             End]"

definition request_on_error :: "js_error \<Rightarrow> span_call list \<Rightarrow> span_call list" where
  "request_on_error error span =
     span @ [AddAttribute ATTRIBUTE_HTTP_ERROR_NAME (Str (error_name error)),
             AddAttribute ATTRIBUTE_HTTP_ERROR_MESSAGE (Str (error_message error)),
             SetStatus CanonicalCode_UNKNOWN,
             End]"

text \<open>
  A terminal signal of an armed outbound operation: the response emits \<^verbatim>\<open>'end'\<close> (with
  the response as it is then, and the identifier drawn in the listener), the response
  emits \<^verbatim>\<open>'error'\<close>, or the request emits \<^verbatim>\<open>'error'\<close>. The event emitter calls the
  listener of the signal each time the signal is emitted; the listeners hold no state of
  their own.
\<close>

datatype signal =
    ResponseEnd ClientResponse string
  | ResponseError js_error
  | RequestError js_error

fun deliver :: "OutgoingHttpHeaders RequestOptions \<Rightarrow> signal \<Rightarrow> span_call list \<Rightarrow> span_call list" where
  "deliver options (ResponseEnd response uuid) span = response_on_end options response uuid span"
| "deliver options (ResponseError error) span = response_on_error error span"
| "deliver options (RequestError error) span = request_on_error error span"

fun deliver_all ::
  "OutgoingHttpHeaders RequestOptions \<Rightarrow> signal list \<Rightarrow> span_call list \<Rightarrow> span_call list" where
  "deliver_all options [] span = span"
| "deliver_all options (s # signals) span = deliver_all options signals (deliver options s span)"

text \<open>How often the span was ended, and the attribute keys written, in the order written.\<close>

definition ends :: "span_call list \<Rightarrow> nat" where
  "ends span = length (filter (\<lambda>c. c = End) span)"

fun attribute_key :: "span_call \<Rightarrow> string option" where
  "attribute_key (AddAttribute k v) = Some k"
| "attribute_key c = None"

definition attribute_keys :: "span_call list \<Rightarrow> string list" where
  "attribute_keys span = List.map_filter attribute_key span"

fun attribute_values :: "string \<Rightarrow> span_call list \<Rightarrow> jstring list" where
  "attribute_values k [] = []"
| "attribute_values k (AddAttribute k' v # span) =
     (if k' = k then v # attribute_values k span else attribute_values k span)"
| "attribute_values k (c # span) = attribute_values k span"

section \<open>Completion of an inbound span\<close>

text \<open>
  The route computed in the replacement of \<^verbatim>\<open>response.end\<close>: the path of the parsed
  url, or, when the request carries a middleware stack, the stack without its
  \<^verbatim>\<open>'/'\<close> entries, each entry starting with a slash, joined with no separator.
  \<^verbatim>\<open>path[0] === '/'\<close> is false for the empty string.
\<close>

definition route_of :: "Url \<Rightarrow> string list option \<Rightarrow> string" where
  "route_of requestUrl stack =
     (case stack of
        None \<Rightarrow> to_string (path requestUrl)
      | Some middlewareStack \<Rightarrow>
          join [] (map (\<lambda>p. if take 1 p = ''/'' then p else ''/'' @ p)
                       (filter (\<lambda>p. p \<noteq> ''/'') middlewareStack)))"

text \<open>
  The function installed as \<^verbatim>\<open>response.end\<close> by \<^verbatim>\<open>incomingRequest\<close>. It restores and
  calls the original \<^verbatim>\<open>end\<close> first, then completes the span. \<^verbatim>\<open>url_parse\<close> is Node's
  \<^verbatim>\<open>url.parse\<close>, which can throw; \<^verbatim>\<open>strip_port\<close> is
  \<^verbatim>\<open>host.replace(/^(.*)(\:[0-9]{1,5})/, '$1')\<close> as the expression engine computes it.
  A missing \<^verbatim>\<open>user-agent\<close> header is written as \<^verbatim>\<open>undefined\<close>.
\<close>

definition response_end ::
  "(string \<Rightarrow> error + Url) \<Rightarrow> (string \<Rightarrow> string) \<Rightarrow> ServerRequest \<Rightarrow> ServerResponse \<Rightarrow> string
   \<Rightarrow> span_call list \<Rightarrow> error + span_call list" where
  "response_end url_parse strip_port request response uuid rootSpan =
     (case url_parse (or_else (request_url request) ''localhost'') of
        Inl e \<Rightarrow> Inl e
      | Inr requestUrl \<Rightarrow>
          (let hs = request_headers request;
               host' = (case hs ''host'' of None \<Rightarrow> ''localhost''
                        | Some h \<Rightarrow> if h \<noteq> [] then h else ''localhost'');
               userAgent = (case hs ''user-agent'' of
                              None \<Rightarrow> hs ''User-Agent''
                            | Some a \<Rightarrow> if a \<noteq> [] then Some a else hs ''User-Agent'');
               route = route_of requestUrl (kMiddlewareStack request)
           in Inr (rootSpan
                   @ [AddAttribute ATTRIBUTE_HTTP_HOST (Str (strip_port host')),
                      AddAttribute ATTRIBUTE_HTTP_METHOD (Str (or_else (request_method request) ''GET'')),
                      AddAttribute ATTRIBUTE_HTTP_PATH (Str (to_string (pathname requestUrl))),
                      AddAttribute ATTRIBUTE_HTTP_ROUTE (Str route),
                      AddAttribute ATTRIBUTE_HTTP_USER_AGENT
                        (case userAgent of None \<Rightarrow> Undefined | Some a \<Rightarrow> Str a),
                      AddAttribute ATTRIBUTE_HTTP_STATUS_CODE (Str (number_toString (statusCode response))),
                      SetStatus (status_value (convertTraceStatus (statusCode response))),
                      AddMessageEvent RECEIVED (message_id uuid),
                      End])))"

text \<open>
  The route in the words of the specification: the segments other than \<^verbatim>\<open>'/'\<close>, in
  list order, each given a leading \<^verbatim>\<open>'/'\<close> unless it has one, concatenated.
\<close>

fun spec_route :: "string list \<Rightarrow> string" where
  "spec_route [] = []"
| "spec_route (seg # segs) =
     (if seg = ''/'' then spec_route segs
      else (case seg of
              c # cs \<Rightarrow> if c = CHR ''/'' then seg else CHR ''/'' # seg
            | [] \<Rightarrow> ''/'')
           @ spec_route segs)"

section \<open>The header setter and the Expect header\<close>











section \<open>The tracer\<close>

text \<open>
  Modelled from the spec: the tracer of the tracing library (\<^verbatim>\<open>@opencensus/core\<close>), which
  the plugin calls and which is not part of this repository. The specification gives
  its interface: \<^verbatim>\<open>currentRootSpan\<close>, \<^verbatim>\<open>startRootSpan(options{name, kind, spanContext?}, fn)\<close>
  returning the result of \<^verbatim>\<open>fn\<close>, \<^verbatim>\<open>startChildSpan(options{name, kind})\<close>, and says that
  a child span is nested under a root span and shares its trace identifier, and that a
  root span continues the extracted context if there is one and has a fresh one
  otherwise. The plugin tests the span it gets against \<^verbatim>\<open>null\<close>, so a span handle is
  optional here: there is none when a child is asked for and no root span is current.
  Every call of the two functions is recorded in the log of effects below.
\<close>

datatype SpanKind = UNSPECIFIED_KIND | SERVER | CLIENT

record SpanContext =
  context_traceId :: nat

record TraceOptions =
  name :: jstring
  kind :: SpanKind
  spanContext :: "SpanContext option"

record Span =
  span_name :: jstring
  span_kind :: SpanKind
  traceId :: nat

record Tracer =
  currentRootSpan :: "Span option"
  root_spans :: "Span list"
  next_traceId :: nat
  propagation :: "((string \<rightharpoonup> string) \<Rightarrow> SpanContext option) option"

text \<open>
  What the interception wrappers do to the world outside them, in the order they do it:
  calling the wrapped function, consulting the pattern matcher and evaluating a pattern,
  wrapping an emitter, starting a span, handing the setter to the propagation,
  registering a listener on the request, replacing \<^verbatim>\<open>response.end\<close>. Calls of the logger
  are left out.
\<close>

datatype emitter = RequestEmitter | ResponseEmitter

datatype 'r effect =
    OriginalApply
  | IsIgnored jstring
  | IsSatisfyPattern "'r IgnoreMatcher"
  | WrapEmitter emitter
  | StartRootSpan TraceOptions
  | StartChildSpan jstring SpanKind
  | PropagationInject Span
  | RequestOn string
  | ResponseEndReplaced

record 'r world =
  tracer :: Tracer
  effects :: "'r effect list"

definition log_effects :: "'r effect list \<Rightarrow> 'r world \<Rightarrow> 'r world" where
  "log_effects es w = w \<lparr>effects := effects w @ es\<rparr>"

text \<open>
  Modelled from the spec: \<^verbatim>\<open>tracer.startRootSpan (options, fn)\<close> starts a root span with
  the name and kind asked for, in the trace of the given context or else in a new trace,
  makes it the current root span and returns what \<^verbatim>\<open>fn\<close> returns for it.
\<close>

definition startRootSpan ::
  "TraceOptions \<Rightarrow> (Span option \<Rightarrow> 'r world \<Rightarrow> 'a \<times> 'r world) \<Rightarrow> 'r world \<Rightarrow> 'a \<times> 'r world" where
  "startRootSpan options fn w =
     (let t = tracer w;
          root = \<lparr>span_name = name options, span_kind = kind options,
                  traceId = (case spanContext options of
                               Some c \<Rightarrow> context_traceId c
                             | None \<Rightarrow> next_traceId t)\<rparr>
      in fn (Some root)
            (log_effects [StartRootSpan options]
               (w \<lparr>tracer := t \<lparr>currentRootSpan := Some root, root_spans := [],
                                 next_traceId := Suc (next_traceId t)\<rparr>\<rparr>)))"

text \<open>
  Modelled from the spec: \<^verbatim>\<open>tracer.startChildSpan ({name, kind})\<close> starts a span under the
  current root span, in its trace, and returns it; with no current root span there is
  nothing to nest under and no span is returned.
\<close>

definition startChildSpan :: "jstring \<Rightarrow> SpanKind \<Rightarrow> 'r world \<Rightarrow> Span option \<times> 'r world" where
  "startChildSpan name' kind' w =
     (case currentRootSpan (tracer w) of
        None \<Rightarrow> (None, log_effects [StartChildSpan name' kind'] w)
      | Some root \<Rightarrow>
          (let child = \<lparr>span_name = name', span_kind = kind', traceId = traceId root\<rparr>
           in (Some child,
               log_effects [StartChildSpan name' kind']
                 (w \<lparr>tracer := (tracer w) \<lparr>root_spans := root_spans (tracer w) @ [child]\<rparr>\<rparr>))))"

section \<open>The plugin and its interception wrappers\<close>

text \<open>
  The plugin: its module name and its configuration (\<^verbatim>\<open>HttpPluginConfig\<close>). The requests
  handed to the predicates of \<^verbatim>\<open>ignoreOutgoingUrls\<close> are the client requests the wrapped
  function returns (type \<^verbatim>\<open>'r\<close>).
\<close>

record 'r HttpPlugin =
  moduleName :: string
  ignoreIncomingPaths :: "ServerRequest IgnoreMatcher list option"
  ignoreOutgoingUrls :: "'r IgnoreMatcher list option"
  createSpanWithNet :: bool

text \<open>
  \<^verbatim>\<open>String.prototype.toLowerCase\<close> on the letters A to Z; the strings it is applied to
  are \<^verbatim>\<open>'HTTP'\<close>, \<^verbatim>\<open>'HTTPS'\<close> and the request method.
\<close>

definition lower_char :: "char \<Rightarrow> char" where
  "lower_char c =
     (if (65::nat) \<le> of_char c \<and> of_char c \<le> (90::nat) then char_of (of_char c + (32::nat)) else c)"

definition toLowerCase :: "string \<Rightarrow> string" where
  "toLowerCase s = map lower_char s"

text \<open>
  The first argument of the wrapped \<^verbatim>\<open>request\<close>: missing (\<^verbatim>\<open>undefined\<close> or \<^verbatim>\<open>null\<close>), a
  url string, or an options object. An object may define a property by an accessor that
  throws; \<^verbatim>\<open>throwing\<close> names the url properties of the object that do.
\<close>

datatype arg =
    ArgMissing
  | ArgString string
  | ArgObject "OutgoingHttpHeaders RequestOptions" "string set"

definition read_property :: "string set \<Rightarrow> string \<Rightarrow> 'a \<Rightarrow> error + 'a" where
  "read_property throwing prop v = (if prop \<in> throwing then Inl (Thrown prop) else Inr v)"

text \<open>
  The body of the \<^verbatim>\<open>try\<close> block of \<^verbatim>\<open>outgoingRequest\<close>: the path name, the method and
  the origin, or the error that takes the run to the \<^verbatim>\<open>catch\<close>. \<^verbatim>\<open>options.path\<close> is read
  only when the path name is empty.
\<close>

definition try_block ::
  "(string \<Rightarrow> error + Url) \<Rightarrow> OutgoingHttpHeaders RequestOptions \<Rightarrow> string set
   \<Rightarrow> error + (string \<times> string \<times> string)" where
  "try_block url_parse options throwing =
     (case read_property throwing ''pathname'' (pathname options) of
        Inl e \<Rightarrow> Inl e
      | Inr pn \<Rightarrow>
     (case (if or_else pn [] = []
            then (case read_property throwing ''path'' (path options) of
                    Inl e \<Rightarrow> Inl e
                  | Inr (Str p) \<Rightarrow>
                      (case url_parse p of
                         Inl e \<Rightarrow> Inl e
                       | Inr parsed \<Rightarrow> Inr (or_else (pathname parsed) []))
                  | Inr other \<Rightarrow> Inr (or_else pn []))
            else Inr (or_else pn [])) of
        Inl e \<Rightarrow> Inl e
      | Inr pathname' \<Rightarrow>
     (case read_property throwing ''method'' (http_method options) of
        Inl e \<Rightarrow> Inl e
      | Inr m \<Rightarrow>
     (case read_property throwing ''protocol'' (protocol options) of
        Inl e \<Rightarrow> Inl e
      | Inr pr \<Rightarrow>
     (case read_property throwing ''host'' (host options) of
        Inl e \<Rightarrow> Inl e
      | Inr h \<Rightarrow>
          Inr (pathname', or_else m ''GET'', or_else pr ''http:'' @ ''//'' @ to_string h))))))"

text \<open>
  Lines 281 to 313 of \<^verbatim>\<open>outgoingRequest\<close>: the call is passed through to the wrapped
  function, or \<^verbatim>\<open>url.parse\<close> throws on a url string, or the call goes on with the options
  object (the parsed url for a string), the path name, the method and the origin.
  \<^verbatim>\<open>!options\<close> holds for a missing argument and for the empty string.
\<close>

datatype target =
    PassThrough
  | Raises error
  | Target "OutgoingHttpHeaders RequestOptions" string string string

definition resolve_target :: "(string \<Rightarrow> error + Url) \<Rightarrow> arg \<Rightarrow> target" where
  "resolve_target url_parse a =
     (case a of
        ArgMissing \<Rightarrow> PassThrough
      | ArgString s \<Rightarrow>
          if s = [] then PassThrough
          else (case url_parse s of
                  Inl e \<Rightarrow> Raises e
                | Inr parsedUrl \<Rightarrow>
                    Target parsedUrl (or_else (pathname parsedUrl) ''/'') ''GET''
                      (or_else (protocol parsedUrl) ''http:'' @ ''//'' @ to_string (host parsedUrl)))
      | ArgObject options throwing \<Rightarrow>
          if (case headers options of
                None \<Rightarrow> False
              | Some hs \<Rightarrow> hval_truthy (hs ''x-opencensus-outgoing-request''))
          then PassThrough
          else (case try_block url_parse options throwing of
                  Inl e \<Rightarrow> PassThrough
                | Inr (pathname', method', origin) \<Rightarrow> Target options pathname' method' origin))"

text \<open>
  The function \<^verbatim>\<open>getMakeRequestTraceFunction (request, options, plugin)\<close> returns, applied
  to a span. What the setter does when the propagation calls it is \<open>setHeader\<close> above;
  what the listeners do is \<open>deliver\<close> above.
\<close>

definition makeRequestTrace :: "'r \<Rightarrow> Span option \<Rightarrow> 'r world \<Rightarrow> (error + 'r) \<times> 'r world" where
  "makeRequestTrace request span w =
     (case span of
        None \<Rightarrow> (Inr request, w)
      | Some sp \<Rightarrow>
          (Inr request,
           log_effects ((if propagation (tracer w) \<noteq> None then [PropagationInject sp] else [])
                 @ [RequestOn ''response'', RequestOn ''error'']) w))"

text \<open>
  \<^verbatim>\<open>outgoingRequest (options, callback)\<close>, the replacement of \<^verbatim>\<open>request\<close>. \<^verbatim>\<open>original\<close> is
  the wrapped function as a function of the first argument; it is always applied to the
  arguments the wrapper received. The result is the request, or the error thrown.
\<close>

definition outgoingRequest ::
  "'r HttpPlugin \<Rightarrow> (string \<Rightarrow> error + Url) \<Rightarrow> (arg \<Rightarrow> 'r) \<Rightarrow> arg \<Rightarrow> 'r world
   \<Rightarrow> (error + 'r) \<times> 'r world" where
  "outgoingRequest plugin url_parse original a w =
     (let kind' = (if moduleName plugin = ''https'' then ''HTTPS'' else ''HTTP'')
      in case resolve_target url_parse a of
           PassThrough \<Rightarrow> (Inr (original a), log_effects [OriginalApply] w)
         | Raises e \<Rightarrow> (Inl e, w)
         | Target options pathname' method' origin \<Rightarrow>
             (let request = original a;
                  w1 = log_effects [OriginalApply] w;
                  url = Str (origin @ pathname');
                  ignored = isIgnored url request (ignoreOutgoingUrls plugin);
                  w2 = log_effects (IsIgnored url # map IsSatisfyPattern (fst ignored)) w1
              in case snd ignored of
                   Inl e \<Rightarrow> (Inl e, w2)
                 | Inr is_ignored \<Rightarrow>
                     if is_ignored then (Inr request, w2)
                     else
                     (let w3 = log_effects [WrapEmitter RequestEmitter] w2;
                          traceOptions =
                            \<lparr>name = Str (toLowerCase kind' @ ''-''
                                          @ toLowerCase (if method' \<noteq> [] then method' else ''GET'')),
                             kind = CLIENT, spanContext = None\<rparr>
                      in if currentRootSpan (tracer w3) = None
                         then startRootSpan traceOptions (makeRequestTrace request) w3
                         else (case startChildSpan (name traceOptions) (kind traceOptions) w3 of
                                 (span, w4) \<Rightarrow> makeRequestTrace request span w4))))"

text \<open>\<^verbatim>\<open>createSpan (options, fn)\<close>.\<close>

definition createSpan ::
  "'r HttpPlugin \<Rightarrow> TraceOptions \<Rightarrow> (Span option \<Rightarrow> 'q world \<Rightarrow> 'a \<times> 'q world) \<Rightarrow> 'q world
   \<Rightarrow> 'a \<times> 'q world" where
  "createSpan plugin options fn w =
     (let forceChildspan = (createSpanWithNet plugin = True)
      in if forceChildspan
         then (case startChildSpan (name options) (kind options) w of (span, w') \<Rightarrow> fn span w')
         else startRootSpan options fn w)"

text \<open>
  \<^verbatim>\<open>incomingRequest (event, ...args)\<close>, the replacement of \<^verbatim>\<open>Server.prototype.emit\<close>, for
  the request and the response in \<^verbatim>\<open>args\<close>. \<^verbatim>\<open>original\<close> is the boolean the wrapped \<^verbatim>\<open>emit\<close>
  returns. \<^verbatim>\<open>url.parse\<close> throws a TypeError when \<^verbatim>\<open>request.url\<close> is not a string.
\<close>

definition incomingRequest ::
  "'r HttpPlugin \<Rightarrow> (string \<Rightarrow> error + Url) \<Rightarrow> bool \<Rightarrow> string \<Rightarrow> ServerRequest
   \<Rightarrow> ServerRequest world \<Rightarrow> (error + bool) \<times> ServerRequest world" where
  "incomingRequest plugin url_parse original event request w =
     (if event \<noteq> ''request'' then (Inr original, log_effects [OriginalApply] w)
      else case (case request_url request of
                   Str u \<Rightarrow> url_parse u
                 | other \<Rightarrow> Inl (TypeError ''The url argument must be of type string'')) of
             Inl e \<Rightarrow> (Inl e, w)
           | Inr parsed \<Rightarrow>
               (let path' = pathname parsed;
                    ignored = isIgnored path' request (ignoreIncomingPaths plugin);
                    w1 = log_effects (IsIgnored path' # map IsSatisfyPattern (fst ignored)) w
                in case snd ignored of
                     Inl e \<Rightarrow> (Inl e, w1)
                   | Inr is_ignored \<Rightarrow>
                       if is_ignored then (Inr original, log_effects [OriginalApply] w1)
                       else
                       (let context = (case propagation (tracer w1) of
                                         None \<Rightarrow> None
                                       | Some extract \<Rightarrow> extract (request_headers request));
                            traceOptions = \<lparr>name = path', kind = SERVER, spanContext = context\<rparr>
                        in createSpan plugin traceOptions
                             (\<lambda>rootSpan w'.
                                if rootSpan = None then (Inr original, log_effects [OriginalApply] w')
                                else (Inr original,
                                      log_effects [WrapEmitter RequestEmitter, WrapEmitter ResponseEmitter,
                                            ResponseEndReplaced, OriginalApply] w'))
                             w1)))"

text \<open>The span starts among some effects, and the effects a run adds to the world.\<close>

fun is_span_start :: "'r effect \<Rightarrow> bool" where
  "is_span_start (StartRootSpan options) = True"
| "is_span_start (StartChildSpan n k) = True"
| "is_span_start e = False"

definition span_starts :: "'r effect list \<Rightarrow> 'r effect list" where
  "span_starts es = filter is_span_start es"

definition added :: "'r world \<Rightarrow> 'r world \<Rightarrow> 'r effect list" where
  "added w w' = drop (length (effects w)) (effects w')"

text \<open>
  The name of an outbound span and the method of an outbound call in the words of the
  specification: the protocol in lower case (\<^verbatim>\<open>https\<close> for the https module, \<^verbatim>\<open>http\<close>
  otherwise), a hyphen, and the method of the call in lower case, \<^verbatim>\<open>get\<close> when the call
  names none. A url string names no method.
\<close>

definition requested_method :: "arg \<Rightarrow> jstring" where
  "requested_method a =
     (case a of ArgObject options throwing \<Rightarrow> http_method options | _ \<Rightarrow> Undefined)"

definition spec_span_name :: "'r HttpPlugin \<Rightarrow> arg \<Rightarrow> string" where
  "spec_span_name plugin a =
     (if moduleName plugin = ''https'' then ''https'' else ''http'') @ ''-''
     @ toLowerCase (or_else (requested_method a) ''GET'')"

text \<open>
  Reading the url properties of an options object raises: one of the properties the
  \<^verbatim>\<open>try\<close> block reads has an accessor that throws. \<^verbatim>\<open>path\<close> is read only when the path
  name is empty.
\<close>

definition reading_raises :: "OutgoingHttpHeaders RequestOptions \<Rightarrow> string set \<Rightarrow> bool" where
  "reading_raises options throwing =
     (''pathname'' \<in> throwing
      \<or> (or_else (pathname options) [] = [] \<and> ''path'' \<in> throwing)
      \<or> ''method'' \<in> throwing \<or> ''protocol'' \<in> throwing \<or> ''host'' \<in> throwing)"

section \<open>Example data\<close>

text \<open>
  Concrete inputs, after the plugin's tests: \<^verbatim>\<open>url.parse\<close> on a url that consists of a
  path; the options of the test with the marker header, with the value of the marker
  left open; a plugin configuration; a tracer with or without a current root span; an
  inbound request; and the store of an operation whose options carry an \<^verbatim>\<open>Expect\<close>
  header with a given value.
\<close>

definition path_only_parse :: "string \<Rightarrow> error + Url" where
  "path_only_parse s =
     Inr \<lparr>headers = None, protocol = Null, host = Null, hostname = Null,
          pathname = Str s, path = Str s, http_method = Undefined, cloned = False\<rparr>"

definition example_options :: "hval option \<Rightarrow> OutgoingHttpHeaders RequestOptions" where
  "example_options marker =
     \<lparr>headers = Some ((\<lambda>k. None) (''x-opencensus-outgoing-request'' := marker)),
      protocol = Undefined, host = Str ''fake.service.io'', hostname = Undefined,
      pathname = Undefined, path = Str ''/outgoing/do-not-trace'', http_method = Undefined,
      cloned = False\<rparr>"

definition example_plugin :: "bool \<Rightarrow> unit HttpPlugin" where
  "example_plugin net =
     \<lparr>moduleName = ''http'', ignoreIncomingPaths = Some [PString ''/ignored/string''],
      ignoreOutgoingUrls = Some [PString ''http://fake.service.io/ignored/string''],
      createSpanWithNet = net\<rparr>"

definition example_world :: "Span option \<Rightarrow> 'r world" where
  "example_world root =
     \<lparr>tracer = \<lparr>currentRootSpan = root, root_spans = [], next_traceId = 7, propagation = None\<rparr>,
      effects = []\<rparr>"

definition example_request :: ServerRequest where
  "example_request =
     \<lparr>request_url = Str ''/incoming/rootSpan/'', request_method = Str ''GET'',
      request_headers = (\<lambda>k. None) (''user-agent'' := Some ''Android''), kMiddlewareStack = None\<rparr>"



section \<open>Properties of the status classifier\<close>

lemma convertTraceStatus_ok: "200 \<le> c \<Longrightarrow> c < 400 \<Longrightarrow> convertTraceStatus c = OK"
  by (simp add: convertTraceStatus_def)

lemma convertTraceStatus_outside: "c < 200 \<or> c > 504 \<Longrightarrow> convertTraceStatus c = UNKNOWN"
  by (simp add: convertTraceStatus_def)

lemma convertTraceStatus_unmapped:
  "400 \<le> c \<Longrightarrow> c \<le> 504 \<Longrightarrow> c \<notin> {400, 401, 403, 404, 429, 501, 503, 504} \<Longrightarrow>
   convertTraceStatus c = UNKNOWN"
  by (simp add: convertTraceStatus_def)

lemma convertTraceStatus_mapped:
  "convertTraceStatus 400 = INVALID_ARGUMENT"
  "convertTraceStatus 401 = UNAUTHENTICATED"
  "convertTraceStatus 403 = PERMISSION_DENIED"
  "convertTraceStatus 404 = NOT_FOUND"
  "convertTraceStatus 429 = RESOURCE_EXHAUSTED"
  "convertTraceStatus 501 = UNIMPLEMENTED"
  "convertTraceStatus 503 = UNAVAILABLE"
  "convertTraceStatus 504 = DEADLINE_EXCEEDED"
  by (simp_all add: convertTraceStatus_def)

text \<open>
  Claim C3. The status classifier is a total function of the integer status code: every
  code from 200 up to but not including 400 is classified OK; 400, 401, 403, 404, 429,
  501, 503 and 504 are classified INVALID_ARGUMENT, UNAUTHENTICATED, PERMISSION_DENIED,
  NOT_FOUND, RESOURCE_EXHAUSTED, UNIMPLEMENTED, UNAVAILABLE and DEADLINE_EXCEEDED; every
  code below 200 or above 504, and every other code between 200 and 504, is classified
  UNKNOWN.
\<close>

theorem convertTraceStatus_classifies:
  "(200 \<le> c \<and> c < 400 \<longrightarrow> convertTraceStatus c = OK)
   \<and> convertTraceStatus 400 = INVALID_ARGUMENT
   \<and> convertTraceStatus 401 = UNAUTHENTICATED
   \<and> convertTraceStatus 403 = PERMISSION_DENIED
   \<and> convertTraceStatus 404 = NOT_FOUND
   \<and> convertTraceStatus 429 = RESOURCE_EXHAUSTED
   \<and> convertTraceStatus 501 = UNIMPLEMENTED
   \<and> convertTraceStatus 503 = UNAVAILABLE
   \<and> convertTraceStatus 504 = DEADLINE_EXCEEDED
   \<and> (c < 200 \<or> c > 504 \<longrightarrow> convertTraceStatus c = UNKNOWN)
   \<and> (200 \<le> c \<and> c \<le> 504 \<and> \<not> c < 400
        \<and> c \<notin> {400, 401, 403, 404, 429, 501, 503, 504} \<longrightarrow> convertTraceStatus c = UNKNOWN)"
proof -
  have "200 \<le> c \<and> c < 400 \<longrightarrow> convertTraceStatus c = OK"
    by (simp add: convertTraceStatus_ok)
  moreover have "c < 200 \<or> c > 504 \<longrightarrow> convertTraceStatus c = UNKNOWN"
    using convertTraceStatus_outside [of c] by blast
  moreover have "200 \<le> c \<and> c \<le> 504 \<and> \<not> c < 400
        \<and> c \<notin> {400, 401, 403, 404, 429, 501, 503, 504} \<longrightarrow> convertTraceStatus c = UNKNOWN"
    using convertTraceStatus_unmapped [of c] by simp
  ultimately show ?thesis
    by (simp only: convertTraceStatus_mapped simp_thms)
qed

theorem convertTraceStatus_classifies_witness:
  "convertTraceStatus 204 = OK \<and> convertTraceStatus 199 = UNKNOWN
   \<and> convertTraceStatus 505 = UNKNOWN \<and> convertTraceStatus 500 = UNKNOWN"
  using convertTraceStatus_classifies [of 204] convertTraceStatus_classifies [of 199]
    convertTraceStatus_classifies [of 505] convertTraceStatus_classifies [of 500]
  by simp

section \<open>Properties of the pattern matcher\<close>

lemma isSatisfyPattern_recognized:
  "recognized p \<Longrightarrow> isSatisfyPattern u r p = Inr (rule_matches u r p)"
  by (cases p) auto

lemma isIgnored_loop_result:
  "\<forall>p\<in>set L. recognized p \<Longrightarrow>
   snd (isIgnored_loop u r L) = Inr (\<exists>p\<in>set L. rule_matches u r p)"
  by (induction L) (auto simp: isSatisfyPattern_recognized split: prod.splits)

lemma isIgnored_loop_evaluated:
  "\<forall>p\<in>set L. recognized p \<Longrightarrow>
   fst (isIgnored_loop u r L) =
     takeWhile (\<lambda>p. \<not> rule_matches u r p) L @ take 1 (dropWhile (\<lambda>p. \<not> rule_matches u r p) L)"
  by (induction L) (auto simp: isSatisfyPattern_recognized split: prod.splits)

lemma isIgnored_loop_prefix:
  "\<forall>p\<in>set pre. isSatisfyPattern u r p = Inr False \<Longrightarrow>
   isIgnored_loop u r (pre @ rest) =
     (pre @ fst (isIgnored_loop u r rest), snd (isIgnored_loop u r rest))"
  by (induction pre) (auto split: prod.splits)

lemma isIgnored_loop_evaluated_other:
  "POther v \<in> set (fst (isIgnored_loop u r L)) \<Longrightarrow>
   snd (isIgnored_loop u r L) = Inl (TypeError ''Pattern is in unsupported datatype'')"
  by (induction L) (auto split: sum.splits prod.splits if_splits)

text \<open>
  Claim C4. For every list \<open>L\<close> of string, regular-expression and predicate rules, every
  url \<open>u\<close> and request \<open>r\<close>: \<open>isIgnored\<close> returns false when the list is absent or empty;
  it returns true exactly when some rule of \<open>L\<close> matches \<open>u\<close> (a string rule by equality,
  a regular expression by its test, a predicate by its result on \<open>u\<close> and \<open>r\<close>); and the
  rules it evaluates are those up to and including the first matching one, in list
  order, so that no rule after the first match is evaluated.
\<close>

theorem isIgnored_first_match:
  "isIgnored u r None = ([], Inr False)
   \<and> isIgnored u r (Some []) = ([], Inr False)
   \<and> ((\<forall>p\<in>set L. recognized p) \<longrightarrow>
        snd (isIgnored u r (Some L)) = Inr (\<exists>p\<in>set L. rule_matches u r p)
        \<and> fst (isIgnored u r (Some L)) =
            takeWhile (\<lambda>p. \<not> rule_matches u r p) L
            @ take 1 (dropWhile (\<lambda>p. \<not> rule_matches u r p) L))"
  by (simp add: isIgnored_def isIgnored_loop_result isIgnored_loop_evaluated)

theorem isIgnored_first_match_witness:
  "list_all recognized [PString ''/a'', PRegExp (\<lambda>s. s = ''/b''), PFunction (\<lambda>u r. True)]
   \<and> isIgnored (Str ''/b'') ()
        (Some [PString ''/a'', PRegExp (\<lambda>s. s = ''/b''), PFunction (\<lambda>u r. True)])
      = ([PString ''/a'', PRegExp (\<lambda>s. s = ''/b'')], Inr True)"
  using isIgnored_first_match [of "Str ''/b''" "()"
      "[PString ''/a'', PRegExp (\<lambda>s. s = ''/b''), PFunction (\<lambda>u r. True)]"]
  by (simp add: prod_eq_iff)

text \<open>
  Claim C7. For every url \<open>u\<close>, request \<open>r\<close> and rule that is neither a string nor a
  regular expression nor a function, evaluating the rule raises the TypeError, and
  \<open>isIgnored\<close> lets it through: whenever the rule is among the rules evaluated, the
  outcome of \<open>isIgnored\<close> is that error and not a boolean; the rule is evaluated whenever
  no rule before it in the list matches or raises, and it is then the last one evaluated.
\<close>

theorem unsupported_pattern_raises:
  "isSatisfyPattern u r (POther v) = Inl (TypeError ''Pattern is in unsupported datatype'')
   \<and> (POther v \<in> set (fst (isIgnored u r (Some L))) \<longrightarrow>
        snd (isIgnored u r (Some L)) = Inl (TypeError ''Pattern is in unsupported datatype''))
   \<and> ((\<forall>p\<in>set pre. isSatisfyPattern u r p = Inr False) \<longrightarrow>
        isIgnored u r (Some (pre @ POther v # post))
          = (pre @ [POther v], Inl (TypeError ''Pattern is in unsupported datatype'')))"
  by (simp add: isIgnored_def isIgnored_loop_evaluated_other isIgnored_loop_prefix)

theorem unsupported_pattern_raises_witness:
  "list_all (\<lambda>p. isSatisfyPattern (Str ''/b'') () p = Inr False)
       [PString ''/a'', PFunction (\<lambda>u r. False)]
   \<and> POther (ONumber 5) \<in> set (fst (isIgnored (Str ''/b'') ()
        (Some ([PString ''/a'', PFunction (\<lambda>u r. False)] @ POther (ONumber 5) # [PString ''/b'']))))
   \<and> isIgnored (Str ''/b'') ()
        (Some ([PString ''/a'', PFunction (\<lambda>u r. False)] @ POther (ONumber 5) # [PString ''/b'']))
      = ([PString ''/a'', PFunction (\<lambda>u r. False), POther (ONumber 5)],
         Inl (TypeError ''Pattern is in unsupported datatype''))"
  using unsupported_pattern_raises [of "Str ''/b''" "()" "ONumber 5"
      "[PString ''/a'', PFunction (\<lambda>u r. False)] @ POther (ONumber 5) # [PString ''/b'']"
      "[PString ''/a'', PFunction (\<lambda>u r. False)]" "[PString ''/b'']"]
  by simp

section \<open>Properties of the inbound route\<close>

lemma join_empty_concat: "join [] xs = concat xs"
  by (induction "[]::string" xs rule: join.induct) auto

lemma spec_route_eq:
  "join [] (map (\<lambda>p. if take 1 p = ''/'' then p else ''/'' @ p) (filter (\<lambda>p. p \<noteq> ''/'') stack))
   = spec_route stack"
proof (induction stack)
  case Nil
  show ?case by simp
next
  case (Cons seg segs)
  then show ?case
    by (cases seg) (auto simp: join_empty_concat)
qed

lemma route_of_stack: "route_of u (Some stack) = spec_route stack"
  unfolding route_of_def using spec_route_eq [of stack] by simp

lemma route_of_none: "route_of u None = to_string (path u)"
  by (simp add: route_of_def)

text \<open>
  Claim C9. For every traced inbound operation, the completion of the response writes
  the attribute \<open>http.route\<close> once, and its value is the raw path of the request (the
  path of the parsed request url) when no middleware stack is attached to the request;
  when a stack is attached it is the concatenation, in list order, of the segments other
  than \<open>/\<close>, each with a leading \<open>/\<close> put in front unless it begins with one.
\<close>

theorem route_attribute:
  assumes "url_parse (or_else (request_url request) ''localhost'') = Inr requestUrl"
  shows "\<exists>written. response_end url_parse strip_port request response uuid rootSpan
                     = Inr (rootSpan @ written)
          \<and> attribute_values ATTRIBUTE_HTTP_ROUTE written =
              [Str (case kMiddlewareStack request of
                      None \<Rightarrow> to_string (path requestUrl)
                    | Some stack \<Rightarrow> spec_route stack)]"
  using assms
  by (simp add: response_end_def route_of_stack route_of_none ATTRIBUTE_HTTP_ROUTE_def
      ATTRIBUTE_HTTP_HOST_def ATTRIBUTE_HTTP_METHOD_def ATTRIBUTE_HTTP_PATH_def
      ATTRIBUTE_HTTP_USER_AGENT_def ATTRIBUTE_HTTP_STATUS_CODE_def Let_def split: option.splits)

theorem route_attribute_witness:
  "(\<lambda>s. Inr \<lparr>headers = None, protocol = Null, host = Null, hostname = Null,
               pathname = Str s, path = Str s, http_method = Undefined, cloned = False\<rparr>)
      (or_else (request_url \<lparr>request_url = Str ''/api/users/7'', request_method = Str ''GET'',
          request_headers = Map.empty, kMiddlewareStack = Some [''/'', ''api'', ''/users'', '''']\<rparr>) ''localhost'')
    = (Inr \<lparr>headers = None, protocol = Null, host = Null, hostname = Null,
               pathname = Str ''/api/users/7'', path = Str ''/api/users/7'', http_method = Undefined,
               cloned = False\<rparr> :: error + Url)
   \<and> (\<exists>written. response_end
          (\<lambda>s. Inr \<lparr>headers = None, protocol = Null, host = Null, hostname = Null,
               pathname = Str s, path = Str s, http_method = Undefined, cloned = False\<rparr>)
          (\<lambda>h. h)
          \<lparr>request_url = Str ''/api/users/7'', request_method = Str ''GET'',
          request_headers = Map.empty, kMiddlewareStack = Some [''/'', ''api'', ''/users'', '''']\<rparr>
          \<lparr>statusCode = 200\<rparr> ''ab-cd'' [] = Inr ([] @ written)
        \<and> attribute_values ATTRIBUTE_HTTP_ROUTE written = [Str ''/api/users/''])"
  using route_attribute [of
          "(\<lambda>s. Inr \<lparr>headers = None, protocol = Null, host = Null, hostname = Null,
               pathname = Str s, path = Str s, http_method = Undefined, cloned = False\<rparr>)"
          "\<lparr>request_url = Str ''/api/users/7'', request_method = Str ''GET'',
          request_headers = Map.empty, kMiddlewareStack = Some [''/'', ''api'', ''/users'', '''']\<rparr>"
          "\<lparr>headers = None, protocol = Null, host = Null, hostname = Null,
               pathname = Str ''/api/users/7'', path = Str ''/api/users/7'', http_method = Undefined,
               cloned = False\<rparr>"
          "\<lambda>h. h" "\<lparr>statusCode = 200\<rparr>" "''ab-cd''" "[]"]
  by simp

section \<open>Properties of the outbound lifecycle\<close>

lemma ends_deliver: "ends (deliver options s span) = Suc (ends span)"
  by (cases s) (simp_all add: response_on_end_def response_on_error_def request_on_error_def
      ends_def Let_def split: option.splits)

lemma ends_deliver_all: "ends (deliver_all options signals span) = ends span + length signals"
  by (induction signals arbitrary: span) (simp_all add: ends_deliver)

lemma keys_deliver: "distinct (attribute_keys (deliver options s []))"
  by (cases s) (simp_all add: response_on_end_def response_on_error_def request_on_error_def
      attribute_keys_def List.map_filter_simps Let_def ATTRIBUTE_HTTP_ROUTE_def
      ATTRIBUTE_HTTP_HOST_def ATTRIBUTE_HTTP_METHOD_def ATTRIBUTE_HTTP_PATH_def
      ATTRIBUTE_HTTP_USER_AGENT_def ATTRIBUTE_HTTP_STATUS_CODE_def
      ATTRIBUTE_HTTP_ERROR_NAME_def ATTRIBUTE_HTTP_ERROR_MESSAGE_def split: option.splits)

lemma last_deliver: "last (deliver options s span) = End"
  by (cases s) (simp_all add: response_on_end_def response_on_error_def request_on_error_def Let_def
      split: option.splits)

text \<open>
  Claim C1, as the specification states it, asks for exactly one \<open>end()\<close> whatever the
  sequence of terminal signals. The listeners carry no guard: delivering the \<open>'end'\<close> of
  the response and then an \<open>'error'\<close> of the request ends the span twice, and the error
  attributes are written after the first \<open>end()\<close>.
\<close>

theorem error_after_end_counterexample:
  "ends (deliver_all
      \<lparr>headers = None, protocol = Undefined, host = Str ''fake.service.io'',
       hostname = Undefined, pathname = Undefined, path = Str ''/x'', http_method = Undefined,
       cloned = False\<rparr>
      [ResponseEnd \<lparr>response_method = Undefined, response_statusCode = Some 200\<rparr> ''ab-cd'',
       RequestError \<lparr>error_name = ''Error'', error_message = ''socket hang up''\<rparr>] []) = 2
   \<and> deliver_all
      \<lparr>headers = None, protocol = Undefined, host = Str ''fake.service.io'',
       hostname = Undefined, pathname = Undefined, path = Str ''/x'', http_method = Undefined,
       cloned = False\<rparr>
      [ResponseEnd \<lparr>response_method = Undefined, response_statusCode = Some 200\<rparr> ''ab-cd'',
       RequestError \<lparr>error_name = ''Error'', error_message = ''socket hang up''\<rparr>] []
     = [AddAttribute ''http.host'' (Str ''fake.service.io''),
        AddAttribute ''http.method'' (Str ''GET''),
        AddAttribute ''http.path'' (Str ''/x''),
        AddAttribute ''http.route'' (Str ''/x''),
        AddAttribute ''http.status_code'' (Str ''200''), SetStatus 0,
        AddMessageEvent SENT ''abcd'', End,
        AddAttribute ''http.error_name'' (Str ''Error''),
        AddAttribute ''http.error_message'' (Str ''socket hang up''), SetStatus 2,
        End]"
  by code_simp

text \<open>
  Claim C1, amended. For every armed outbound operation, every terminal signal delivered
  runs its listener: the number of \<open>end()\<close> calls on the span is the number of signals
  delivered. When exactly one terminal signal is delivered to a fresh span, \<open>end()\<close> is
  called exactly once, it is the last call on the span, and every attribute key is
  written at most once.
\<close>

theorem one_end_per_signal:
  "ends (deliver_all options signals span) = ends span + length signals
   \<and> ends (deliver_all options [s] []) = 1
   \<and> last (deliver_all options [s] []) = End
   \<and> distinct (attribute_keys (deliver_all options [s] []))"
proof -
  have "ends (deliver options s []) = 1"
    by (simp add: ends_deliver) (simp add: ends_def)
  then show ?thesis
    by (simp add: ends_deliver_all keys_deliver last_deliver)
qed

section \<open>Properties of the header setter\<close>













section \<open>Properties of the outbound wrapper\<close>

lemma toLowerCase_HTTP: "toLowerCase ''HTTP'' = ''http''"
  by code_simp

lemma toLowerCase_HTTPS: "toLowerCase ''HTTPS'' = ''https''"
  by code_simp

lemma toLowerCase_GET: "toLowerCase ''GET'' = ''get''"
  by code_simp

lemma effects_logged [simp]: "effects (log_effects es w) = effects w @ es"
  by (simp add: log_effects_def)

lemma tracer_logged [simp]: "tracer (log_effects es w) = tracer w"
  by (simp add: log_effects_def)

lemma added_logged [simp]: "added w (log_effects es w) = es"
  by (simp add: added_def)

lemma span_starts_patterns [simp]: "filter is_span_start (map IsSatisfyPattern ps) = []"
  by (induction ps) simp_all

lemma root_start_patterns [simp]: "StartRootSpan options \<notin> set (map IsSatisfyPattern ps)"
  by (induction ps) simp_all

lemma end_replaced_patterns [simp]: "ResponseEndReplaced \<notin> set (map IsSatisfyPattern ps)"
  by (induction ps) simp_all

lemma or_else_nonempty: "d \<noteq> [] \<Longrightarrow> or_else x d \<noteq> []"
  by (cases x) auto

lemma try_block_method:
  "try_block url_parse options throwing = Inr (p, m, origin) \<Longrightarrow>
   m = or_else (http_method options) ''GET''"
  by (auto simp: try_block_def read_property_def split: sum.splits if_splits jstring.splits)

lemma try_block_raises:
  "reading_raises options throwing \<Longrightarrow> \<exists>e. try_block url_parse options throwing = Inl e"
  by (auto simp: reading_raises_def try_block_def read_property_def split: sum.splits jstring.splits)

lemma resolve_target_method:
  assumes "resolve_target url_parse a = Target options pathname' method' origin"
  shows "(if method' \<noteq> [] then method' else ''GET'') = or_else (requested_method a) ''GET''"
proof (cases a)
  case ArgMissing
  with assms show ?thesis by (simp add: resolve_target_def)
next
  case (ArgString s)
  with assms show ?thesis
    by (auto simp: resolve_target_def requested_method_def split: if_splits sum.splits)
next
  case (ArgObject o' thr)
  with assms have "method' = or_else (http_method o') ''GET''"
    by (auto simp: resolve_target_def split: if_splits sum.splits dest: try_block_method)
  then show ?thesis
    by (simp add: ArgObject requested_method_def or_else_nonempty)
qed

lemma outgoingRequest_traced:
  assumes "resolve_target url_parse a = Target options pathname' method' origin"
      and "snd (isIgnored (Str (origin @ pathname')) (original a) (ignoreOutgoingUrls plugin))
             = Inr False"
  shows "outgoingRequest plugin url_parse original a w =
     (let w3 = log_effects (OriginalApply # IsIgnored (Str (origin @ pathname'))
                     # map IsSatisfyPattern
                         (fst (isIgnored (Str (origin @ pathname')) (original a)
                                 (ignoreOutgoingUrls plugin)))
                     @ [WrapEmitter RequestEmitter]) w;
          traceOptions = \<lparr>name = Str (spec_span_name plugin a), kind = CLIENT, spanContext = None\<rparr>
      in if currentRootSpan (tracer w) = None
         then startRootSpan traceOptions (makeRequestTrace (original a)) w3
         else (case startChildSpan (name traceOptions) (kind traceOptions) w3 of
                 (span, w4) \<Rightarrow> makeRequestTrace (original a) span w4))"
  using assms resolve_target_method [OF assms(1)]
  by (simp add: outgoingRequest_def Let_def toLowerCase_HTTP toLowerCase_HTTPS log_effects_def
      spec_span_name_def)

lemma outgoingRequest_ignores_flag:
  "outgoingRequest (plugin \<lparr>createSpanWithNet := b\<rparr>) url_parse original a w
     = outgoingRequest plugin url_parse original a w"
  by (simp add: outgoingRequest_def split: target.splits)

lemma example_try:
  "try_block path_only_parse (example_options m) {} =
     Inr (''/outgoing/do-not-trace'', ''GET'', ''http://fake.service.io'')"
  by (simp add: try_block_def read_property_def path_only_parse_def example_options_def)

lemma example_resolve:
  "\<not> hval_truthy m \<Longrightarrow>
   resolve_target path_only_parse (ArgObject (example_options m) {}) =
     Target (example_options m) ''/outgoing/do-not-trace'' ''GET'' ''http://fake.service.io''"
  by (simp add: resolve_target_def example_try) (simp add: example_options_def)

text \<open>
  Claim C2. For every outbound operation that is not passed through and that the ignore
  list does not match: if no root span is current at interception, exactly one span is
  started, a root span of kind CLIENT, and it becomes the current one; if a root span is
  current, exactly one span is started, a child span of kind CLIENT, added to the spans
  of the current root and carrying its trace identifier; in both cases the name of the
  span is the lower-case protocol, a hyphen, and the lower-case method of the call,
  \<open>get\<close> by default. The wrapper returns the request of the wrapped function.
\<close>

theorem outgoing_root_or_child:
  assumes "resolve_target url_parse a = Target options pathname' method' origin"
      and "snd (isIgnored (Str (origin @ pathname')) (original a) (ignoreOutgoingUrls plugin))
             = Inr False"
  shows "fst (outgoingRequest plugin url_parse original a w) = Inr (original a)
    \<and> (currentRootSpan (tracer w) = None \<longrightarrow>
          span_starts (added w (snd (outgoingRequest plugin url_parse original a w)))
            = [StartRootSpan \<lparr>name = Str (spec_span_name plugin a), kind = CLIENT,
                               spanContext = None\<rparr>]
          \<and> currentRootSpan (tracer (snd (outgoingRequest plugin url_parse original a w)))
            = Some \<lparr>span_name = Str (spec_span_name plugin a), span_kind = CLIENT,
                     traceId = next_traceId (tracer w)\<rparr>)
    \<and> (\<forall>root. currentRootSpan (tracer w) = Some root \<longrightarrow>
          span_starts (added w (snd (outgoingRequest plugin url_parse original a w)))
            = [StartChildSpan (Str (spec_span_name plugin a)) CLIENT]
          \<and> currentRootSpan (tracer (snd (outgoingRequest plugin url_parse original a w)))
            = Some root
          \<and> root_spans (tracer (snd (outgoingRequest plugin url_parse original a w)))
            = root_spans (tracer w)
              @ [\<lparr>span_name = Str (spec_span_name plugin a), span_kind = CLIENT,
                   traceId = traceId root\<rparr>])"
  unfolding outgoingRequest_traced [where original = original and a = a and plugin = plugin
      and url_parse = url_parse and w = w, OF assms(1,2)]
  by (auto simp: Let_def startRootSpan_def startChildSpan_def makeRequestTrace_def
      added_def span_starts_def log_effects_def)

theorem outgoing_root_or_child_witness:
  "resolve_target path_only_parse (ArgObject (example_options None) {})
     = Target (example_options None) ''/outgoing/do-not-trace'' ''GET'' ''http://fake.service.io''
   \<and> snd (isIgnored (Str (''http://fake.service.io'' @ ''/outgoing/do-not-trace'')) ()
          (ignoreOutgoingUrls (example_plugin False))) = Inr False
   \<and> currentRootSpan (tracer (example_world None :: unit world)) = None
   \<and> span_starts (added (example_world None)
         (snd (outgoingRequest (example_plugin False) path_only_parse (\<lambda>a. ())
                 (ArgObject (example_options None) {}) (example_world None))))
       = [StartRootSpan \<lparr>name = Str ''http-get'', kind = CLIENT, spanContext = None\<rparr>]
   \<and> currentRootSpan (tracer (example_world
          (Some \<lparr>span_name = Str ''TestRootSpan'', span_kind = SERVER, traceId = 3\<rparr>) :: unit world))
       = Some \<lparr>span_name = Str ''TestRootSpan'', span_kind = SERVER, traceId = 3\<rparr>
   \<and> root_spans (tracer (snd (outgoingRequest (example_plugin False) path_only_parse (\<lambda>a. ())
         (ArgObject (example_options None) {})
         (example_world (Some \<lparr>span_name = Str ''TestRootSpan'', span_kind = SERVER, traceId = 3\<rparr>)))))
       = [\<lparr>span_name = Str ''http-get'', span_kind = CLIENT, traceId = 3\<rparr>]"
proof -
  have r: "resolve_target path_only_parse (ArgObject (example_options None) {})
     = Target (example_options None) ''/outgoing/do-not-trace'' ''GET'' ''http://fake.service.io''"
    by (simp add: example_resolve)
  have i: "snd (isIgnored (Str (''http://fake.service.io'' @ ''/outgoing/do-not-trace'')) ()
          (ignoreOutgoingUrls (example_plugin False))) = Inr False"
    by (simp add: isIgnored_def example_plugin_def)
  have m: "spec_span_name (example_plugin False) (ArgObject (example_options None) {}) = ''http-get''"
    by (simp add: spec_span_name_def requested_method_def example_options_def example_plugin_def
        toLowerCase_GET)
  note t = outgoing_root_or_child [where original = "\<lambda>a. ()" and plugin = "example_plugin False"
      and url_parse = path_only_parse, OF r i]
  show ?thesis
    using r i t [of "example_world None"]
      t [of "example_world (Some \<lparr>span_name = Str ''TestRootSpan'', span_kind = SERVER, traceId = 3\<rparr>)"]
    by (simp add: m) (simp add: example_world_def example_plugin_def)
qed

text \<open>
  Claim C5, as the specification states it, is about every operation whose headers
  contain the marker key. The wrapper tests the value of the marker for truthiness:
  with the marker present and empty the operation is traced like any other (the ignore
  list is consulted and a root span is started).
\<close>

theorem empty_marker_counterexample:
  "headers (example_options (Some (HString [])))
     = Some ((\<lambda>k. None) (''x-opencensus-outgoing-request'' := Some (HString [])))
   \<and> effects (snd (outgoingRequest (example_plugin False) path_only_parse (\<lambda>a. ())
        (ArgObject (example_options (Some (HString []))) {}) (example_world None)))
     = [OriginalApply,
        IsIgnored (Str ''http://fake.service.io/outgoing/do-not-trace''),
        IsSatisfyPattern (PString ''http://fake.service.io/ignored/string''),
        WrapEmitter RequestEmitter,
        StartRootSpan \<lparr>name = Str ''http-get'', kind = CLIENT, spanContext = None\<rparr>,
        RequestOn ''response'', RequestOn ''error'']"
  apply (simp add: outgoingRequest_def example_resolve Let_def)
  apply (simp add: path_only_parse_def example_options_def example_plugin_def example_world_def
     isIgnored_def startRootSpan_def makeRequestTrace_def log_effects_def
     toLowerCase_HTTP toLowerCase_GET)
  done

text \<open>
  Claim C5, amended. For every outbound operation whose headers hold the marker
  \<open>x-opencensus-outgoing-request\<close> with a truthy value (a non-empty string, a number
  other than zero, a list), the wrapper returns the result of the wrapped function and
  does nothing but call it: no span is started and the ignore list is not consulted.
\<close>

theorem marked_request_passes_through:
  assumes "headers options = Some hs" and "hval_truthy (hs ''x-opencensus-outgoing-request'')"
  shows "outgoingRequest plugin url_parse original (ArgObject options throwing) w
           = (Inr (original (ArgObject options throwing)), log_effects [OriginalApply] w)"
  using assms by (simp add: outgoingRequest_def resolve_target_def)

theorem marked_request_passes_through_witness:
  "headers (example_options (Some (HNumber 1))) =
      Some ((\<lambda>k. None) (''x-opencensus-outgoing-request'' := Some (HNumber 1)))
   \<and> hval_truthy (((\<lambda>k. None) (''x-opencensus-outgoing-request'' := Some (HNumber 1)))
        ''x-opencensus-outgoing-request'')
   \<and> outgoingRequest (example_plugin False) path_only_parse (\<lambda>a. ())
        (ArgObject (example_options (Some (HNumber 1))) {}) (example_world None)
      = (Inr (), \<lparr>tracer = \<lparr>currentRootSpan = None, root_spans = [], next_traceId = 7,
                            propagation = None\<rparr>,
                  effects = [OriginalApply]\<rparr>)"
  using marked_request_passes_through [of "example_options (Some (HNumber 1))"
      "(\<lambda>k. None) (''x-opencensus-outgoing-request'' := Some (HNumber 1))"
      "example_plugin False" path_only_parse "\<lambda>a. ()" "{}" "example_world None"]
  by (simp add: path_only_parse_def example_options_def example_plugin_def example_world_def
      log_effects_def)

text \<open>
  Claim C10. For every outbound interception whose options argument is falsy (missing,
  or the empty string), or is an options object one of whose url properties
  (\<open>pathname\<close>, \<open>path\<close>, \<open>method\<close>, \<open>protocol\<close>, \<open>host\<close>) raises when the wrapper reads it,
  the wrapper returns the result of the wrapped function on the arguments it received
  and does nothing but call it: no span is started and no ignore rule is evaluated.
\<close>

theorem unreadable_options_pass_through:
  assumes "a = ArgMissing \<or> a = ArgString []
           \<or> (a = ArgObject options throwing \<and> reading_raises options throwing)"
  shows "outgoingRequest plugin url_parse original a w = (Inr (original a), log_effects [OriginalApply] w)"
proof -
  have "resolve_target url_parse a = PassThrough"
    using assms try_block_raises [of options throwing url_parse]
    by (auto simp: resolve_target_def)
  then show ?thesis by (simp add: outgoingRequest_def)
qed

theorem unreadable_options_pass_through_witness:
  "reading_raises (example_options None) {''host''}
   \<and> outgoingRequest (example_plugin False) path_only_parse (\<lambda>a. ())
        (ArgObject (example_options None) {''host''}) (example_world None)
      = (Inr (), \<lparr>tracer = \<lparr>currentRootSpan = None, root_spans = [], next_traceId = 7,
                            propagation = None\<rparr>,
                  effects = [OriginalApply]\<rparr>)
   \<and> outgoingRequest (example_plugin False) path_only_parse (\<lambda>a. ())
        ArgMissing (example_world None)
      = (Inr (), \<lparr>tracer = \<lparr>currentRootSpan = None, root_spans = [], next_traceId = 7,
                            propagation = None\<rparr>,
                  effects = [OriginalApply]\<rparr>)"
  using unreadable_options_pass_through [of "ArgObject (example_options None) {''host''}"
      "example_options None" "{''host''}" "example_plugin False" path_only_parse "\<lambda>a. ()"
      "example_world None"]
    unreadable_options_pass_through [of ArgMissing
      "example_options None" "{''host''}" "example_plugin False" path_only_parse "\<lambda>a. ()"
      "example_world None"]
  by (simp add: reading_raises_def) (simp add: example_world_def log_effects_def)

section \<open>Properties of the inbound wrapper\<close>

lemma createSpan_forced:
  "createSpanWithNet plugin \<Longrightarrow>
   createSpan plugin options fn w =
     (case startChildSpan (name options) (kind options) w of (span, w') \<Rightarrow> fn span w')"
  by (simp add: createSpan_def)

lemma incoming_never_root:
  assumes "createSpanWithNet plugin"
  shows "StartRootSpan options \<notin>
           set (added w (snd (incomingRequest plugin url_parse original event request w)))"
  using assms
  by (auto simp: incomingRequest_def Let_def createSpan_forced startChildSpan_def added_def log_effects_def
      split: sum.splits jstring.splits option.splits if_splits)

lemma incoming_child:
  assumes "createSpanWithNet plugin"
    and "request_url request = Str u" and "url_parse u = Inr parsed"
    and "snd (isIgnored (pathname parsed) request (ignoreIncomingPaths plugin)) = Inr False"
    and "w' = snd (incomingRequest plugin url_parse original ''request'' request w)"
  shows "span_starts (added w w') = [StartChildSpan (pathname parsed) SERVER]
     \<and> (case currentRootSpan (tracer w) of
           None \<Rightarrow> tracer w' = tracer w \<and> ResponseEndReplaced \<notin> set (added w w')
         | Some root \<Rightarrow>
             currentRootSpan (tracer w') = Some root
             \<and> root_spans (tracer w') = root_spans (tracer w)
                  @ [\<lparr>span_name = pathname parsed, span_kind = SERVER, traceId = traceId root\<rparr>]
             \<and> ResponseEndReplaced \<in> set (added w w'))"
  using assms
  by (auto simp: incomingRequest_def Let_def createSpan_forced startChildSpan_def added_def log_effects_def
      span_starts_def split: option.splits)

text \<open>
  Claim C6, as the specification states it, covers outbound operations too. The
  outbound wrapper does not read the flag: with \<open>createSpanWithNet\<close> set and no root
  span current, an outbound operation starts a root span.
\<close>

theorem forced_child_outbound_counterexample:
  "createSpanWithNet (example_plugin True) = True
   \<and> span_starts (effects (snd (outgoingRequest (example_plugin True) path_only_parse (\<lambda>a. ())
        (ArgObject (example_options None) {}) (example_world None))))
     = [StartRootSpan \<lparr>name = Str ''http-get'', kind = CLIENT, spanContext = None\<rparr>]"
  apply (simp add: outgoingRequest_def example_resolve Let_def)
  apply (simp add: path_only_parse_def example_options_def example_plugin_def example_world_def
     isIgnored_def startRootSpan_def makeRequestTrace_def log_effects_def
     toLowerCase_HTTP toLowerCase_GET span_starts_def)
  done

text \<open>
  Claim C6, amended. When \<open>createSpanWithNet\<close> is true, no inbound operation starts a
  root span; an inbound request that is not ignored asks the tracer for exactly one
  child span, named by the path and of kind SERVER: with a root span current the child
  is added to its spans, carries its trace identifier, and the completion of the
  response is armed; with none current no span results and the request is handled
  untraced. The outbound wrapper behaves the same whatever the value of the flag.
\<close>

theorem createSpanWithNet_inbound_only:
  assumes "createSpanWithNet plugin"
  shows "(\<forall>options. StartRootSpan options \<notin>
            set (added w (snd (incomingRequest plugin url_parse original event request w))))
    \<and> (event = ''request'' \<and> request_url request = Str u \<and> url_parse u = Inr parsed
        \<and> snd (isIgnored (pathname parsed) request (ignoreIncomingPaths plugin)) = Inr False \<longrightarrow>
          span_starts (added w (snd (incomingRequest plugin url_parse original event request w)))
            = [StartChildSpan (pathname parsed) SERVER]
          \<and> (case currentRootSpan (tracer w) of
                None \<Rightarrow>
                  tracer (snd (incomingRequest plugin url_parse original event request w))
                    = tracer w
                  \<and> ResponseEndReplaced \<notin>
                      set (added w (snd (incomingRequest plugin url_parse original event request w)))
              | Some root \<Rightarrow>
                  currentRootSpan
                      (tracer (snd (incomingRequest plugin url_parse original event request w)))
                    = Some root
                  \<and> root_spans
                      (tracer (snd (incomingRequest plugin url_parse original event request w)))
                    = root_spans (tracer w)
                      @ [\<lparr>span_name = pathname parsed, span_kind = SERVER, traceId = traceId root\<rparr>]
                  \<and> ResponseEndReplaced \<in>
                      set (added w (snd (incomingRequest plugin url_parse original event request w)))))
    \<and> outgoingRequest (plugin' \<lparr>createSpanWithNet := b\<rparr>) url_parse' original' a w''
        = outgoingRequest plugin' url_parse' original' a w''"
  using incoming_never_root [OF assms, of _ w url_parse original event request]
    incoming_child [OF assms, of request u url_parse parsed _ original w, OF _ _ _ refl]
    outgoingRequest_ignores_flag [where plugin = plugin' and b = b and url_parse = url_parse'
      and original = original' and a = a and w = w'']
  by blast

theorem createSpanWithNet_inbound_only_witness:
  "createSpanWithNet (example_plugin True)
   \<and> request_url example_request = Str ''/incoming/rootSpan/''
   \<and> path_only_parse ''/incoming/rootSpan/''
       = Inr \<lparr>headers = None, protocol = Null, host = Null, hostname = Null,
          pathname = Str ''/incoming/rootSpan/'', path = Str ''/incoming/rootSpan/'',
          http_method = Undefined, cloned = False\<rparr>
   \<and> snd (isIgnored (Str ''/incoming/rootSpan/'') example_request
          (ignoreIncomingPaths (example_plugin True))) = Inr False
   \<and> span_starts (added (example_world (Some \<lparr>span_name = Str ''net'', span_kind = SERVER, traceId = 3\<rparr>))
         (snd (incomingRequest (example_plugin True) path_only_parse True ''request'' example_request
            (example_world (Some \<lparr>span_name = Str ''net'', span_kind = SERVER, traceId = 3\<rparr>)))))
      = [StartChildSpan (Str ''/incoming/rootSpan/'') SERVER]
   \<and> root_spans (tracer (snd (incomingRequest (example_plugin True) path_only_parse True ''request''
         example_request
         (example_world (Some \<lparr>span_name = Str ''net'', span_kind = SERVER, traceId = 3\<rparr>)))))
      = [\<lparr>span_name = Str ''/incoming/rootSpan/'', span_kind = SERVER, traceId = 3\<rparr>]"
proof -
  have c: "createSpanWithNet (example_plugin True)" by (simp add: example_plugin_def)
  have i: "snd (isIgnored (Str ''/incoming/rootSpan/'') example_request
          (ignoreIncomingPaths (example_plugin True))) = Inr False"
    by (simp add: isIgnored_def example_plugin_def)
  show ?thesis
    using c i createSpanWithNet_inbound_only [where plugin = "example_plugin True"
        and url_parse = path_only_parse and original = True and event = "''request''"
        and request = example_request
        and w = "example_world (Some \<lparr>span_name = Str ''net'', span_kind = SERVER, traceId = 3\<rparr>)"
        and u = "''/incoming/rootSpan/''"
        and parsed = "\<lparr>headers = None, protocol = Null, host = Null, hostname = Null,
          pathname = Str ''/incoming/rootSpan/'', path = Str ''/incoming/rootSpan/'',
          http_method = Undefined, cloned = False\<rparr>"
        and plugin' = "example_plugin True" and b = False and url_parse' = path_only_parse
        and original' = "\<lambda>a. ()" and a = ArgMissing and w'' = "example_world None", OF c]
    by (simp add: example_request_def path_only_parse_def example_world_def)
qed

end
